theory Spec2Isabelle
  imports Main "HOL-Library.Word"
begin

unbundle bit_operations_syntax

section \<open>Machine types and byte order\<close>

type_synonym byte = "8 word"
type_synonym u32 = "32 word"
type_synonym u64 = "64 word"

text \<open>
  Structures are written to and read from the file as they lie in memory
  (\<^verbatim>\<open>fwrite(&x, sizeof(x), 1, file)\<close>).  The host is taken to be little-endian,
  as every host of the tool is: the in-memory bytes of an integer are its little-endian
  encoding.
\<close>

definition le_encode :: "nat \<Rightarrow> 'a::len word \<Rightarrow> byte list" where
  "le_encode n w = map (\<lambda>k. ucast (drop_bit (8 * k) w)) [0..<n]"

fun le_decode :: "byte list \<Rightarrow> 'a::len word" where
  "le_decode [] = 0"
| "le_decode (b # bs) = ucast b OR push_bit 8 (le_decode bs)"

definition le32 :: "u32 \<Rightarrow> byte list" where
  "le32 w = le_encode 4 w"

definition le64 :: "u64 \<Rightarrow> byte list" where
  "le64 w = le_encode 8 w"

definition bswap32 :: "u32 \<Rightarrow> u32" where
  "bswap32 w = le_decode (rev (le32 w))"

definition bswap64 :: "u64 \<Rightarrow> u64" where
  "bswap64 w = le_decode (rev (le64 w))"

text \<open>The magic numbers of \<^verbatim>\<open><mach-o/loader.h>\<close> and \<^verbatim>\<open><mach-o/fat.h>\<close>.\<close>

definition MH_MAGIC :: u32 where "MH_MAGIC = 0xfeedface"
definition MH_CIGAM :: u32 where "MH_CIGAM = 0xcefaedfe"
definition MH_MAGIC_64 :: u32 where "MH_MAGIC_64 = 0xfeedfacf"
definition MH_CIGAM_64 :: u32 where "MH_CIGAM_64 = 0xcffaedfe"
definition FAT_MAGIC :: u32 where "FAT_MAGIC = 0xcafebabe"
definition FAT_CIGAM :: u32 where "FAT_CIGAM = 0xbebafeca"

definition LC_SEGMENT :: u32 where "LC_SEGMENT = 0x1"
definition LC_SYMTAB :: u32 where "LC_SYMTAB = 0x2"
definition LC_SEGMENT_64 :: u32 where "LC_SEGMENT_64 = 0x19"
definition LC_CODE_SIGNATURE :: u32 where "LC_CODE_SIGNATURE = 0x1d"

definition UINT32_MAX :: nat where "UINT32_MAX = 4294967295"

text \<open>
  Modelled from the spec: the macros of \<^verbatim>\<open>macros.h\<close> (\<^verbatim>\<open>IS_MAGIC\<close>, \<^verbatim>\<open>IS_FAT\<close>,
  \<^verbatim>\<open>SWAP32\<close>, \<^verbatim>\<open>SWAP64\<close>, \<^verbatim>\<open>ROUND_UP\<close>) are not among the sources.  The spec: the
  recognized magics are the four Mach-O magics and the two fat magics; \<open>swap32(v, magic)\<close>
  and \<open>swap64(v, magic)\<close> byte-reverse iff \<open>needs_swap(magic)\<close>; \<open>round_up(x, a)\<close> is the
  smallest multiple of \<open>a\<close> that is \<open>\<ge> x\<close>.
\<close>

definition IS_FAT :: "u32 \<Rightarrow> bool" where
  "IS_FAT magic = (magic = FAT_MAGIC \<or> magic = FAT_CIGAM)"

definition IS_MAGIC :: "u32 \<Rightarrow> bool" where
  "IS_MAGIC magic = (magic = MH_MAGIC \<or> magic = MH_CIGAM \<or> magic = MH_MAGIC_64
     \<or> magic = MH_CIGAM_64 \<or> magic = FAT_MAGIC \<or> magic = FAT_CIGAM)"

definition needs_swap :: "u32 \<Rightarrow> bool" where
  "needs_swap magic = (magic = MH_CIGAM \<or> magic = MH_CIGAM_64 \<or> magic = FAT_CIGAM)"

definition SWAP32 :: "u32 \<Rightarrow> u32 \<Rightarrow> u32" where
  "SWAP32 v magic = (if needs_swap magic then bswap32 v else v)"

definition SWAP64 :: "u64 \<Rightarrow> u32 \<Rightarrow> u64" where
  "SWAP64 v magic = (if needs_swap magic then bswap64 v else v)"

definition ROUND_UP :: "nat \<Rightarrow> nat \<Rightarrow> nat" where
  "ROUND_UP x a = ((x + a - 1) div a) * a"

section \<open>The file\<close>

text \<open>
  The open file is the list of its bytes.  Modelled from the spec: the helpers of
  \<^verbatim>\<open>fileutils.h\<close> (\<^verbatim>\<open>fzero\<close>, \<^verbatim>\<open>fmove\<close>, \<^verbatim>\<open>fcpy\<close>) are not among the sources.  The
  spec: \<open>zero_range(off, len)\<close>, \<open>move_range(off_dst, off_src, len)\<close> (overlap handled) and
  \<open>copy_range(dst_file, off_dst, src_file, off_src, len)\<close>, over \<open>read_at\<close> and
  \<open>write_at\<close>.  A write past the end of the file extends it, the hole reading as
  zeros; a write of no bytes changes nothing; a read past the end is short.
\<close>

definition ftruncate :: "byte list \<Rightarrow> nat \<Rightarrow> byte list" where
  "ftruncate f n = take n f @ replicate (n - length f) 0"

definition write_at :: "byte list \<Rightarrow> nat \<Rightarrow> byte list \<Rightarrow> byte list" where
  "write_at f off bs =
     (if bs = [] then f
      else take off f @ replicate (off - length f) 0 @ bs @ drop (off + length bs) f)"

definition read_at :: "byte list \<Rightarrow> nat \<Rightarrow> nat \<Rightarrow> byte list" where
  "read_at f off n = take n (drop off f)"

definition fzero :: "byte list \<Rightarrow> nat \<Rightarrow> nat \<Rightarrow> byte list" where
  "fzero f off len = write_at f off (replicate len 0)"

definition fmove :: "byte list \<Rightarrow> nat \<Rightarrow> nat \<Rightarrow> nat \<Rightarrow> byte list" where
  "fmove f dst src len = write_at f dst (read_at f src len)"

definition fcpy :: "byte list \<Rightarrow> nat \<Rightarrow> byte list \<Rightarrow> nat \<Rightarrow> nat \<Rightarrow> byte list" where
  "fcpy dst dst_off src src_off len = write_at dst dst_off (read_at src src_off len)"

section \<open>The container\<close>

text \<open>
  The structures of \<^verbatim>\<open>macho.h\<close> as the source uses them.  \<open>fat_arch\<close> is the fat
  entry (the field \<open>size\<close> is \<open>size_fa\<close> here); \<open>mach_header\<close> is
  \<^verbatim>\<open>struct mach_header\<close> (its \<open>cputype\<close> and \<open>cpusubtype\<close> carry the suffix \<open>_mh\<close>);
  a \<open>LoadCommand\<close> holds the host-order \<open>cmd\<close> and \<open>cmdsize\<close>, the absolute
  \<open>file_offset\<close> (an \<^verbatim>\<open>off_t\<close> that the code only sets to a position of the file or
  such a position plus sizes, hence a natural number) and the payload \<open>raw_lc\<close> in the
  slice's byte order.
\<close>

record fat_arch =
  cputype :: u32
  cpusubtype :: u32
  offset :: u32
  size_fa :: u32
  align :: u32

record mach_header =
  magic :: u32
  cputype_mh :: u32
  cpusubtype_mh :: u32
  filetype :: u32
  ncmds :: u32
  sizeofcmds :: u32
  flags :: u32

record LoadCommand =
  cmd :: u32
  cmdsize :: u32
  file_offset :: nat
  raw_lc :: "byte list"

record MachOArch =
  fat_arch :: fat_arch
  mach_header :: mach_header
  load_commands :: "LoadCommand list"

record MachO =
  "file" :: "byte list"
  file_size :: u32
  is_fat :: bool
  fat_magic :: u32
  n_archs :: u32
  archs :: "MachOArch list"

text \<open>
  Where the source leaves defined behaviour (a failed \<^verbatim>\<open>assert\<close>, a vector
  indexed out of range, \<^verbatim>\<open>back()\<close> of an empty vector, a shift \<^verbatim>\<open>1 << align\<close> that
  does not fit an \<^verbatim>\<open>int\<close>, a read past the end of a payload) an operation of the model
  returns \<open>None\<close>.
\<close>

definition nth_opt :: "'a list \<Rightarrow> nat \<Rightarrow> 'a option" where
  "nth_opt xs i = (if i < length xs then Some (xs ! i) else None)"

definition shl1 :: "u32 \<Rightarrow> nat option" where
  "shl1 k = (if unat k < 31 then Some (2 ^ unat k) else None)"

definition fat_arch_bytes :: "fat_arch \<Rightarrow> byte list" where
  "fat_arch_bytes fa =
     le32 (cputype fa) @ le32 (cpusubtype fa) @ le32 (offset fa) @ le32 (size_fa fa)
       @ le32 (align fa)"

definition mach_header_bytes :: "mach_header \<Rightarrow> byte list" where
  "mach_header_bytes mh =
     le32 (magic mh) @ le32 (cputype_mh mh) @ le32 (cpusubtype_mh mh) @ le32 (filetype mh)
       @ le32 (ncmds mh) @ le32 (sizeofcmds mh) @ le32 (flags mh)"

text \<open>
  The sizes of \<^verbatim>\<open>struct fat_header\<close>, \<^verbatim>\<open>struct fat_arch\<close> and \<^verbatim>\<open>struct mach_header\<close>,
  the type the constructor reads a thin file's header into (line 66).
\<close>

definition sizeof_fat_header :: nat where "sizeof_fat_header = 8"
definition sizeof_fat_arch :: nat where "sizeof_fat_arch = 20"
definition sizeof_mach_header :: nat where "sizeof_mach_header = 28"

definition swap_arch :: "u32 \<Rightarrow> fat_arch \<Rightarrow> fat_arch" where
  "swap_arch fm fa =
     \<lparr>cputype = SWAP32 (cputype fa) fm, cpusubtype = SWAP32 (cpusubtype fa) fm,
      offset = SWAP32 (offset fa) fm, size_fa = SWAP32 (size_fa fa) fm,
      align = SWAP32 (align fa) fm\<rparr>"

definition write_fat_header :: "MachO \<Rightarrow> MachO" where
  "write_fat_header st =
     (if \<not> is_fat st then st
      else st\<lparr>file := write_at (file st) 0
                (le32 (fat_magic st) @ le32 (SWAP32 (n_archs st) (fat_magic st)))\<rparr>)"

fun write_archs :: "u32 \<Rightarrow> byte list \<Rightarrow> nat \<Rightarrow> MachOArch list \<Rightarrow> byte list" where
  "write_archs fm f pos [] = f"
| "write_archs fm f pos (a # as) =
     write_archs fm (write_at f pos (fat_arch_bytes (swap_arch fm (fat_arch a))))
       (pos + sizeof_fat_arch) as"

definition write_fat_archs :: "MachO \<Rightarrow> MachO option" where
  "write_fat_archs st =
     (if \<not> is_fat st then
        (case archs st of
           [] \<Rightarrow> None
         | a # _ \<Rightarrow>
            let arch_size = size_fa (fat_arch a) in
            if file_size st \<noteq> arch_size
            then Some (st\<lparr>file := ftruncate (file st) (unat arch_size),
                          file_size := arch_size\<rparr>)
            else Some st)
      else
        let st1 = st\<lparr>file := write_archs (fat_magic st) (file st) sizeof_fat_header (archs st)\<rparr>
        in if 0 < n_archs st then
             (if archs st = [] then None
              else
                let fa = fat_arch (last (archs st));
                    new_size = offset fa + size_fa fa
                in if new_size \<noteq> file_size st
                   then Some (st1\<lparr>file := ftruncate (file st1) (unat new_size),
                                  file_size := new_size\<rparr>)
                   else Some st1)
           else Some st1)"

definition write_mach_header :: "byte list \<Rightarrow> MachOArch \<Rightarrow> byte list" where
  "write_mach_header f a =
     write_at f (unat (offset (fat_arch a))) (mach_header_bytes (mach_header a))"

text \<open>
  \<^verbatim>\<open>fwrite(lc.raw_lc, lc.cmdsize, 1, file)\<close> writes \<open>cmdsize\<close> bytes of the payload.
  A record owns exactly \<open>cmdsize\<close> payload bytes; were the buffer shorter, the source
  would read past its end, and the model writes the bytes the buffer has.
\<close>

definition payload :: "LoadCommand \<Rightarrow> byte list" where
  "payload lc = take (unat (cmdsize lc)) (raw_lc lc)"

definition write_load_command :: "byte list \<Rightarrow> LoadCommand \<Rightarrow> byte list" where
  "write_load_command f lc = write_at f (file_offset lc) (payload lc)"

section \<open>Thin and fat\<close>

definition make_fat :: "MachO \<Rightarrow> MachO option" where
  "make_fat st =
     (if is_fat st then None
      else case archs st of
        [] \<Rightarrow> None
      | a # rest \<Rightarrow>
         (case shl1 (align (fat_arch a)) of
            None \<Rightarrow> None
          | Some al \<Rightarrow>
             let off = (of_nat (ROUND_UP sizeof_fat_header al) :: u32);
                 f1 = ftruncate (file st) (unat (file_size st + off));
                 f2 = fmove f1 (unat off) 0 (unat (file_size st));
                 f3 = fzero f2 (unat off) 0;
                 st1 = write_fat_header (st\<lparr>file := f3, fat_magic := FAT_CIGAM\<rparr>);
                 st2 = st1\<lparr>archs := a\<lparr>fat_arch := (fat_arch a)\<lparr>offset := off\<rparr>\<rparr> # rest\<rparr>
             in (case write_fat_archs st2 of
                   None \<Rightarrow> None
                 | Some st3 \<Rightarrow> Some (st3\<lparr>is_fat := True, file_size := file_size st3 + off\<rparr>))))"


section \<open>Inserting a slice\<close>

definition insert_arch_from_macho :: "MachO \<Rightarrow> MachO \<Rightarrow> nat \<Rightarrow> MachO option" where
  "insert_arch_from_macho st macho arch_index =
     (case nth_opt (archs macho) arch_index of
        None \<Rightarrow> None
      | Some arch \<Rightarrow>
         let fa = swap_arch (fat_magic st) (swap_arch (fat_magic macho) (fat_arch arch)) in
         (case shl1 (align fa) of
            None \<Rightarrow> None
          | Some al \<Rightarrow>
             let off = (of_nat (ROUND_UP (unat (file_size st)) al) :: u32);
                 fa' = fa\<lparr>offset := off\<rparr>;
                 new_size = file_size st + off;
                 f1 = ftruncate (file st) (unat new_size);
                 f2 = fzero f1 (unat (file_size st)) (unat (off - file_size st));
                 f3 = fcpy f2 (unat off) (file macho) 0 (unat (size_fa fa'));
                 st1 = st\<lparr>n_archs := n_archs st + 1,
                          archs := archs st @ [arch\<lparr>fat_arch := fa'\<rparr>],
                          file := f3, file_size := new_size\<rparr>
             in write_fat_archs (write_fat_header st1)))"

section \<open>Load commands\<close>

text \<open>
  The loop of \<^verbatim>\<open>move_load_command\<close>: the commands after the moved one are written
  one after the other from the moved command's position, each taking the position it
  is written at as its \<open>file_offset\<close>.
\<close>

fun rewrite_cmds ::
  "byte list \<Rightarrow> nat \<Rightarrow> LoadCommand list \<Rightarrow> byte list \<times> nat \<times> LoadCommand list" where
  "rewrite_cmds f new_offset [] = (f, new_offset, [])"
| "rewrite_cmds f new_offset (lc # ls) =
     (case rewrite_cmds (write_at f new_offset (payload lc))
             (new_offset + unat (cmdsize lc)) ls of
        (f', end_offset, ls') \<Rightarrow> (f', end_offset, lc\<lparr>file_offset := new_offset\<rparr> # ls'))"

text \<open>\<^verbatim>\<open>move_load_command\<close> past its two early returns, where \<open>lc_index < new_index\<close>.\<close>

definition move_forward :: "MachO \<Rightarrow> nat \<Rightarrow> nat \<Rightarrow> nat \<Rightarrow> MachO option" where
  "move_forward st arch_index lc_index new_index =
     (case nth_opt (archs st) arch_index of
        None \<Rightarrow> None
      | Some arch \<Rightarrow>
         let lcs = load_commands arch in
         if \<not> new_index < length lcs then None
         else
           let lc_to_move = lcs ! lc_index in
           (case rewrite_cmds (file st) (file_offset lc_to_move)
                   (take (new_index - lc_index) (drop (lc_index + 1) lcs)) of
              (f1, new_offset, slid) \<Rightarrow>
                let moved = lc_to_move\<lparr>file_offset := new_offset\<rparr>;
                    f2 = write_at f1 new_offset (payload moved);
                    lcs1 = take lc_index lcs @ slid @ drop (new_index + 1) lcs @ [moved]
                in Some (st\<lparr>file := f2,
                             archs := (archs st)[arch_index := arch\<lparr>load_commands := lcs1\<rparr>]\<rparr>)))"

definition move_load_command :: "MachO \<Rightarrow> nat \<Rightarrow> nat \<Rightarrow> nat \<Rightarrow> MachO option" where
  "move_load_command st arch_index lc_index new_index =
     (if lc_index = new_index then Some st
      else if lc_index > new_index then move_forward st arch_index new_index lc_index
      else move_forward st arch_index lc_index new_index)"

definition remove_load_command :: "MachO \<Rightarrow> nat \<Rightarrow> nat \<Rightarrow> MachO option" where
  "remove_load_command st arch_index lc_index =
     (case nth_opt (archs st) arch_index of
        None \<Rightarrow> None
      | Some arch0 \<Rightarrow>
         (case (if 1 < length (load_commands arch0)
                then move_load_command st arch_index lc_index (length (load_commands arch0) - 1)
                else Some st) of
            None \<Rightarrow> None
          | Some st1 \<Rightarrow>
             (case nth_opt (archs st1) arch_index of
                None \<Rightarrow> None
              | Some arch \<Rightarrow>
                 if load_commands arch = [] then None
                 else
                   let lc = last (load_commands arch);
                       mh = mach_header arch;
                       arch1 = arch\<lparr>mach_header :=
                                 mh\<lparr>ncmds := ncmds mh - 1,
                                    sizeofcmds := sizeofcmds mh - cmdsize lc\<rparr>\<rparr>;
                       f1 = write_mach_header (file st1) arch1;
                       f2 = fzero f1 (file_offset lc) (unat (cmdsize lc));
                       arch2 = arch1\<lparr>load_commands := butlast (load_commands arch)\<rparr>
                   in Some (st1\<lparr>file := f2, archs := (archs st1)[arch_index := arch2]\<rparr>))))"

text \<open>
  A field of a payload, read or stored through a structure view of the buffer: the
  bytes at the field's offset, in the host's byte order.
\<close>

definition get32 :: "byte list \<Rightarrow> nat \<Rightarrow> u32" where
  "get32 raw k = le_decode (take 4 (drop k raw))"

definition get64 :: "byte list \<Rightarrow> nat \<Rightarrow> u64" where
  "get64 raw k = le_decode (take 8 (drop k raw))"

definition put_bytes :: "byte list \<Rightarrow> nat \<Rightarrow> byte list \<Rightarrow> byte list" where
  "put_bytes raw k bs = take k raw @ bs @ drop (k + length bs) raw"

text \<open>
  Modelled from the spec: the constructor \<^verbatim>\<open>LoadCommand(magic, offset, raw_lc)\<close> is not
  among the sources.  The spec: a new record has \<open>file_offset = offset\<close>, \<open>cmd\<close> and
  \<open>cmdsize\<close> derived from the payload under the slice magic, and owns exactly \<open>cmdsize\<close>
  payload bytes.
\<close>

definition LoadCommand_of :: "u32 \<Rightarrow> nat \<Rightarrow> byte list \<Rightarrow> LoadCommand" where
  "LoadCommand_of mg off raw =
     \<lparr>cmd = SWAP32 (get32 raw 0) mg, cmdsize = SWAP32 (get32 raw 4) mg, file_offset = off,
      raw_lc = take (unat (SWAP32 (get32 raw 4) mg)) raw\<rparr>"

definition insert_load_command :: "MachO \<Rightarrow> nat \<Rightarrow> byte list \<Rightarrow> MachO option" where
  "insert_load_command st arch_index raw =
     (case nth_opt (archs st) arch_index of
        None \<Rightarrow> None
      | Some arch \<Rightarrow>
         let off = (if load_commands arch = []
                    then offset (fat_arch arch) + size_fa (fat_arch arch)
                    else (of_nat (file_offset (last (load_commands arch))
                            + unat (cmdsize (last (load_commands arch)))) :: u32));
             mg = magic (mach_header arch)
         in if length raw < 8 then None
            else
              let csz = SWAP32 (get32 raw 4) mg in
              if length raw < unat csz then None
              else
                let f1 = write_at (file st) (unat off) (take (unat csz) raw);
                    mh = mach_header arch;
                    arch1 = arch\<lparr>load_commands :=
                                  load_commands arch @ [LoadCommand_of mg (unat off) raw],
                                mach_header :=
                                  mh\<lparr>ncmds := ncmds mh + 1, sizeofcmds := sizeofcmds mh + csz\<rparr>\<rparr>;
                    f2 = write_mach_header f1 arch1
                in Some (st\<lparr>file := f2, archs := (archs st)[arch_index := arch1]\<rparr>))"

section \<open>Removing the code signature\<close>

text \<open>
  \<^verbatim>\<open>strncmp\<close> of the C library: the first \<open>n\<close> characters are compared as unsigned
  bytes, the comparison ends at a NUL, and the result is zero iff no difference was
  found.  A position past the end of a list reads as the terminating NUL.
\<close>

fun strncmp :: "byte list \<Rightarrow> byte list \<Rightarrow> nat \<Rightarrow> int" where
  "strncmp s1 s2 0 = 0"
| "strncmp s1 s2 (Suc n) =
     (let c1 = (case s1 of [] \<Rightarrow> 0 | c # _ \<Rightarrow> c);
          c2 = (case s2 of [] \<Rightarrow> 0 | c # _ \<Rightarrow> c)
      in if c1 \<noteq> c2 then (if c1 < c2 then - 1 else 1)
         else if c1 = 0 then 0
         else strncmp (tl s1) (tl s2) n)"

definition cstring :: "string \<Rightarrow> byte list" where
  "cstring s = map (\<lambda>c. of_nat (of_char c)) s"

text \<open>
  The scan of the load commands.  The pointers \<^verbatim>\<open>codesig_lc\<close>, \<^verbatim>\<open>linkedit_lc\<close> and
  \<^verbatim>\<open>symtab_lc\<close> are indices into the list (\<open>None\<close> for \<^verbatim>\<open>NULL\<close>).

  The source reads the segment name through \<^verbatim>\<open>(segment_command *)&lc\<close>: the sixteen
  bytes at offset 8 of the \<^verbatim>\<open>LoadCommand\<close> object itself, not of its payload.  What
  those bytes are is the parameter \<open>segname\<close> of the scan; \<open>object_segname\<close> below is the
  value the operations are evaluated with.
\<close>

fun scan_cmds ::
  "(LoadCommand \<Rightarrow> byte list) \<Rightarrow> LoadCommand list \<Rightarrow> nat
     \<Rightarrow> nat option \<times> nat option \<times> nat option \<Rightarrow> nat option \<times> nat option \<times> nat option" where
  "scan_cmds segname [] i found = found"
| "scan_cmds segname (lc # ls) i (codesig, linkedit, symtab) =
     scan_cmds segname ls (i + 1)
       (if cmd lc = LC_CODE_SIGNATURE then (Some i, linkedit, symtab)
        else if cmd lc = LC_SEGMENT \<or> cmd lc = LC_SEGMENT_64 then
          (codesig,
           if strncmp (segname lc) (cstring ''__LINKEDIT'') 16 \<noteq> 0 then Some i else linkedit,
           symtab)
        else if cmd lc = LC_SYMTAB then (codesig, linkedit, Some i)
        else (codesig, linkedit, symtab))"

text \<open>
  Modelled from the spec: the declaration of the class \<^verbatim>\<open>LoadCommand\<close> is in
  \<^verbatim>\<open>macho.h\<close>, which is not among the sources.  The spec: a record holds \<open>cmd\<close>,
  \<open>cmdsize\<close>, \<open>file_offset\<close> and the payload it owns.  With the members in this order
  the bytes at offset 8 of the object, where the view has \<^verbatim>\<open>segname\<close>, are the eight
  bytes of \<open>file_offset\<close> (an \<^verbatim>\<open>off_t\<close>) and then the pointer to the payload.  The
  offset of a command in a file of less than \<open>2^32\<close> bytes has a zero byte among its
  first five, where \<^verbatim>\<open>strncmp\<close> stops, so the pointer is never compared and is left out.
  The object's bytes never spell \<^verbatim>\<open>__LINKEDIT\<close>: the comparison is non-zero for every
  segment, and the scan takes the last segment command of the list, whatever its name.
\<close>

definition object_segname :: "LoadCommand \<Rightarrow> byte list" where
  "object_segname lc = le64 (of_nat (file_offset lc))"

text \<open>
  The name a segment command has in the file: the field \<^verbatim>\<open>segname\<close> of its payload.  The
  scan does not read it; it says what the files of the examples contain.
\<close>

definition segname_field :: "LoadCommand \<Rightarrow> byte list" where
  "segname_field lc = take 16 (drop 8 (raw_lc lc))"

text \<open>
  The fields the operation reads through \<^verbatim>\<open>linkedit_data_command\<close>,
  \<^verbatim>\<open>symtab_command\<close>, \<^verbatim>\<open>segment_command\<close> and \<^verbatim>\<open>segment_command_64\<close> views of a
  payload, swapped by the slice's magic (lines 418 to 436 and 445 to 448); the 32-bit
  segment's fields are widened to \<^verbatim>\<open>uint64_t\<close>.
\<close>

definition dataoff :: "u32 \<Rightarrow> LoadCommand \<Rightarrow> u32" where
  "dataoff mg lc = SWAP32 (get32 (raw_lc lc) 8) mg"

definition datasize :: "u32 \<Rightarrow> LoadCommand \<Rightarrow> u32" where
  "datasize mg lc = SWAP32 (get32 (raw_lc lc) 12) mg"

definition stroff :: "u32 \<Rightarrow> LoadCommand \<Rightarrow> u32" where
  "stroff mg lc = SWAP32 (get32 (raw_lc lc) 16) mg"

definition strsize :: "u32 \<Rightarrow> LoadCommand \<Rightarrow> u32" where
  "strsize mg lc = SWAP32 (get32 (raw_lc lc) 20) mg"

definition fileoff :: "u32 \<Rightarrow> LoadCommand \<Rightarrow> u64" where
  "fileoff mg lc =
     (if cmd lc = LC_SEGMENT then ucast (SWAP32 (get32 (raw_lc lc) 32) mg)
      else SWAP64 (get64 (raw_lc lc) 40) mg)"

definition filesize :: "u32 \<Rightarrow> LoadCommand \<Rightarrow> u64" where
  "filesize mg lc =
     (if cmd lc = LC_SEGMENT then ucast (SWAP32 (get32 (raw_lc lc) 36) mg)
      else SWAP64 (get64 (raw_lc lc) 48) mg)"

text \<open>The bytes of a payload each view reads; a shorter payload would be read past its end.\<close>

definition sizeof_view :: "LoadCommand \<Rightarrow> nat" where
  "sizeof_view lc =
     (if cmd lc = LC_CODE_SIGNATURE then 16
      else if cmd lc = LC_SEGMENT then 40
      else if cmd lc = LC_SEGMENT_64 then 56
      else if cmd lc = LC_SYMTAB then 24
      else 0)"

text \<open>
  The size reduction of lines 442 to 453: \<open>diff_size\<close> is computed in \<^verbatim>\<open>int64_t\<close>, which
  holds every value here exactly, from the 32-bit sum \<open>stroff + strsize\<close>.
\<close>

definition size_reduction_of :: "u32 \<Rightarrow> u32 \<Rightarrow> u32 \<Rightarrow> LoadCommand option \<Rightarrow> u32" where
  "size_reduction_of mg sz codesig_size symtab_lc =
     (case symtab_lc of
        None \<Rightarrow> codesig_size
      | Some lc \<Rightarrow>
         let diff_size = (uint sz - uint codesig_size) - uint (stroff mg lc + strsize mg lc)
         in if 0 \<le> diff_size \<and> diff_size \<le> 16
            then codesig_size + word_of_int diff_size
            else codesig_size)"

text \<open>The \<^verbatim>\<open>__LINKEDIT\<close> payload with its new \<open>filesize\<close> and \<open>vmsize\<close> (lines 459 to 467).\<close>

definition set_linkedit_sizes :: "u32 \<Rightarrow> LoadCommand \<Rightarrow> u64 \<Rightarrow> u64 \<Rightarrow> LoadCommand" where
  "set_linkedit_sizes mg lc linkedit_size linkedit_vmsize =
     (if cmd lc = LC_SEGMENT then
        lc\<lparr>raw_lc := put_bytes (put_bytes (raw_lc lc) 36 (le32 (SWAP32 (ucast linkedit_size) mg)))
                        28 (le32 (SWAP32 (ucast linkedit_vmsize) mg))\<rparr>
      else
        lc\<lparr>raw_lc := put_bytes (put_bytes (raw_lc lc) 48 (le64 (SWAP64 linkedit_size mg)))
                        32 (le64 (SWAP64 linkedit_vmsize mg))\<rparr>)"

text \<open>
  Lines 455 to 467: the slice with its size reduced and the \<^verbatim>\<open>__LINKEDIT\<close> record with
  its sizes updated.
\<close>

definition shrink_arch :: "MachOArch \<Rightarrow> nat \<Rightarrow> u32 \<Rightarrow> MachOArch" where
  "shrink_arch arch linkedit_index size_reduction =
     (let mg = magic (mach_header arch);
          linkedit_lc = load_commands arch ! linkedit_index;
          linkedit_size = filesize mg linkedit_lc - ucast size_reduction;
          linkedit_vmsize = (of_nat (ROUND_UP (unat linkedit_size) 0x1000) :: u64)
      in arch\<lparr>fat_arch := (fat_arch arch)\<lparr>size_fa := size_fa (fat_arch arch) - size_reduction\<rparr>,
              load_commands := (load_commands arch)[linkedit_index :=
                 set_linkedit_sizes mg linkedit_lc linkedit_size linkedit_vmsize]\<rparr>)"

definition remove_codesignature ::
  "(LoadCommand \<Rightarrow> byte list) \<Rightarrow> MachO \<Rightarrow> nat \<Rightarrow> (bool \<times> MachO) option" where
  "remove_codesignature segname st arch_index =
     (case nth_opt (archs st) arch_index of
        None \<Rightarrow> None
      | Some arch \<Rightarrow>
         let mg = magic (mach_header arch);
             lcs = load_commands arch;
             sz = size_fa (fat_arch arch)
         in (case scan_cmds segname lcs 0 (None, None, None) of
               (None, _, _) \<Rightarrow> Some (False, st)
             | (Some _, None, _) \<Rightarrow> Some (False, st)
             | (Some codesig_index, Some linkedit_index, symtab_index) \<Rightarrow>
                let codesig_lc = lcs ! codesig_index;
                    linkedit_lc = lcs ! linkedit_index;
                    symtab_lc = map_option (\<lambda>i. lcs ! i) symtab_index
                in if length (raw_lc codesig_lc) < sizeof_view codesig_lc then None
                   else if dataoff mg codesig_lc + datasize mg codesig_lc \<noteq> sz
                   then Some (False, st)
                   else if length (raw_lc linkedit_lc) < sizeof_view linkedit_lc then None
                   else if fileoff mg linkedit_lc + filesize mg linkedit_lc \<noteq> ucast sz
                   then Some (False, st)
                   else if (case symtab_lc of None \<Rightarrow> False
                            | Some lc \<Rightarrow> length (raw_lc lc) < sizeof_view lc) then None
                   else
                     let size_reduction =
                           size_reduction_of mg sz (datasize mg codesig_lc) symtab_lc;
                         st1 = st\<lparr>archs := (archs st)[arch_index :=
                                  shrink_arch arch linkedit_index size_reduction]\<rparr>
                     in (case write_fat_archs st1 of
                           None \<Rightarrow> None
                         | Some st2 \<Rightarrow>
                            let linkedit1 = load_commands (archs st2 ! arch_index) ! linkedit_index;
                                st3 = st2\<lparr>file := write_load_command (file st2) linkedit1\<rparr>
                            in (case remove_load_command st3 arch_index codesig_index of
                                  None \<Rightarrow> None
                                | Some st4 \<Rightarrow> Some (True, st4)))))"



section \<open>Opening a file\<close>

text \<open>
  The constructor up to the point where it has accepted the magic (lines 27 to 46): the
  result is the error thrown, or \<open>file_size\<close>, \<open>magic\<close> and \<open>is_fat\<close>.  On a file of
  fewer than four bytes \<^verbatim>\<open>PEEK\<close> leaves \<open>magic\<close> indeterminate: \<open>None\<close>.
\<close>

datatype open_error = FileTooLarge | UnknownMagic u32

definition PEEK :: "byte list \<Rightarrow> u32 option" where
  "PEEK f = (if length f < 4 then None else Some (le_decode (take 4 f)))"

definition MachO_open :: "byte list \<Rightarrow> (open_error + u32 \<times> u32 \<times> bool) option" where
  "MachO_open f =
     (if UINT32_MAX < length f then Some (Inl FileTooLarge)
      else case PEEK f of
        None \<Rightarrow> None
      | Some mg \<Rightarrow>
         if \<not> IS_MAGIC mg then Some (Inl (UnknownMagic mg))
         else Some (Inr (of_nat (length f), mg, IS_FAT mg)))"


definition trailing_slice :: "MachO \<Rightarrow> nat \<Rightarrow> bool" where
  "trailing_slice st arch_index =
     (length (file st) = unat (file_size st)
      \<and> (case nth_opt (archs st) arch_index of
           None \<Rightarrow> False
         | Some arch \<Rightarrow>
            if is_fat st then
              0 < n_archs st \<and> Suc arch_index = length (archs st)
              \<and> unat (offset (fat_arch arch)) + unat (size_fa (fat_arch arch))
                   = unat (file_size st)
              \<and> sizeof_fat_header + sizeof_fat_arch * length (archs st)
                   \<le> unat (offset (fat_arch arch))
            else arch_index = 0 \<and> offset (fat_arch arch) = 0
                 \<and> size_fa (fat_arch arch) = file_size st))"


section \<open>The load-command table of a slice\<close>

text \<open>
  The invariant of the load-command records of a slice, in three parts: the counts of
  the mach header; the records follow each other from \<open>pos\<close>, each owning exactly
  \<open>cmdsize\<close> payload bytes; and the file holds each record's payload at its
  \<open>file_offset\<close>.
\<close>

definition total_cmdsize :: "LoadCommand list \<Rightarrow> nat" where
  "total_cmdsize lcs = sum_list (map (\<lambda>lc. unat (cmdsize lc)) lcs)"

fun contiguous :: "nat \<Rightarrow> LoadCommand list \<Rightarrow> bool" where
  "contiguous pos [] = True"
| "contiguous pos (lc # ls) =
     (file_offset lc = pos \<and> length (raw_lc lc) = unat (cmdsize lc)
      \<and> contiguous (pos + unat (cmdsize lc)) ls)"

fun on_disk :: "byte list \<Rightarrow> LoadCommand list \<Rightarrow> bool" where
  "on_disk f [] = True"
| "on_disk f (lc # ls) =
     (read_at f (file_offset lc) (unat (cmdsize lc)) = raw_lc lc \<and> on_disk f ls)"

definition counts_ok :: "MachOArch \<Rightarrow> bool" where
  "counts_ok a =
     (total_cmdsize (load_commands a) = unat (sizeofcmds (mach_header a))
      \<and> length (load_commands a) = unat (ncmds (mach_header a)))"

definition lc_invariant :: "byte list \<Rightarrow> MachOArch \<Rightarrow> bool" where
  "lc_invariant f a =
     (counts_ok a
      \<and> contiguous (unat (offset (fat_arch a)) + sizeof_mach_header) (load_commands a)
      \<and> on_disk f (load_commands a))"


text \<open>The last segment command of a list, by its index.\<close>

fun last_segment :: "LoadCommand list \<Rightarrow> nat option" where
  "last_segment [] = None"
| "last_segment (lc # ls) =
     (case last_segment ls of
        Some i \<Rightarrow> Some (Suc i)
      | None \<Rightarrow> if cmd lc = LC_SEGMENT \<or> cmd lc = LC_SEGMENT_64 then Some 0 else None)"



section \<open>Example files\<close>

text \<open>
  Small files in the layout of \<^verbatim>\<open><mach-o/loader.h>\<close>, with the native 32-bit magic:
  a load command is \<open>cmd\<close>, \<open>cmdsize\<close> and a body; a 32-bit segment command has the
  name, \<open>vmaddr\<close>, \<open>vmsize\<close>, \<open>fileoff\<close>, \<open>filesize\<close> and four more words.
\<close>

definition mk_lc :: "u32 \<Rightarrow> nat \<Rightarrow> byte list \<Rightarrow> LoadCommand" where
  "mk_lc c off body =
     \<lparr>cmd = c, cmdsize = of_nat (8 + length body), file_offset = off,
      raw_lc = le32 c @ le32 (of_nat (8 + length body)) @ body\<rparr>"

definition segname16 :: "string \<Rightarrow> byte list" where
  "segname16 s = take 16 (cstring s @ replicate 16 0)"

definition segment_body :: "string \<Rightarrow> u32 \<Rightarrow> u32 \<Rightarrow> byte list" where
  "segment_body name foff fsz =
     segname16 name @ le32 0 @ le32 0x1000 @ le32 foff @ le32 fsz @ replicate 16 0"

definition symtab_body :: "u32 \<Rightarrow> u32 \<Rightarrow> byte list" where
  "symtab_body soff ssz = le32 0 @ le32 0 @ le32 soff @ le32 ssz"

definition codesig_body :: "u32 \<Rightarrow> u32 \<Rightarrow> byte list" where
  "codesig_body doff dsz = le32 doff @ le32 dsz"

definition mk_header :: "nat \<Rightarrow> LoadCommand list \<Rightarrow> mach_header" where
  "mk_header n lcs =
     \<lparr>magic = MH_MAGIC, cputype_mh = 7, cpusubtype_mh = 3, filetype = 2,
      ncmds = of_nat (length lcs), sizeofcmds = of_nat (total_cmdsize lcs), flags = 0\<rparr>"

definition mk_arch :: "nat \<Rightarrow> nat \<Rightarrow> nat \<Rightarrow> LoadCommand list \<Rightarrow> MachOArch" where
  "mk_arch off n al lcs =
     \<lparr>fat_arch = \<lparr>cputype = 7, cpusubtype = 3, offset = of_nat off, size_fa = of_nat n,
                   align = of_nat al\<rparr>,
      mach_header = mk_header n lcs, load_commands = lcs\<rparr>"

text \<open>The bytes of a slice of \<open>n\<close> bytes: header, commands, and \<open>0xAA\<close> up to the end.\<close>

definition slice_bytes :: "MachOArch \<Rightarrow> byte list" where
  "slice_bytes a =
     take (unat (size_fa (fat_arch a)))
       (mach_header_bytes (mach_header a) @ concat (map raw_lc (load_commands a))
          @ replicate (unat (size_fa (fat_arch a))) 0xAA)"

definition thin_of :: "MachOArch \<Rightarrow> MachO" where
  "thin_of a =
     \<lparr>file = slice_bytes a, file_size = size_fa (fat_arch a), is_fat = False,
      fat_magic = FAT_CIGAM, n_archs = 1, archs = [a]\<rparr>"

text \<open>
  A fat file of slices laid out one after the other: header and entries, zeros up to
  the first slice, each slice at its \<open>offset\<close>.
\<close>

fun place_slices :: "byte list \<Rightarrow> MachOArch list \<Rightarrow> byte list" where
  "place_slices f [] = f"
| "place_slices f (a # as) =
     place_slices (write_at f (unat (offset (fat_arch a))) (slice_bytes a)) as"

definition fat_of :: "MachOArch list \<Rightarrow> MachO" where
  "fat_of as =
     (let f = place_slices
                (write_archs FAT_CIGAM
                   (le32 FAT_CIGAM @ le32 (SWAP32 (of_nat (length as)) FAT_CIGAM))
                   sizeof_fat_header as) as
      in \<lparr>file = f, file_size = of_nat (length f), is_fat = True, fat_magic = FAT_CIGAM,
          n_archs = of_nat (length as), archs = as\<rparr>)"

text \<open>
  A signed slice of 224 bytes at \<open>base\<close>: \<^verbatim>\<open>__TEXT\<close> over \<open>[0, 192)\<close>, \<^verbatim>\<open>__LINKEDIT\<close>
  over \<open>[192, 224)\<close> with the string table at \<open>[192, 204)\<close> and the signature at
  \<open>[208, 224)\<close>.
\<close>

definition signed_cmds :: "nat \<Rightarrow> LoadCommand list" where
  "signed_cmds base =
     [mk_lc LC_SEGMENT (base + 28) (segment_body ''__TEXT'' 0 192),
      mk_lc LC_SEGMENT (base + 84) (segment_body ''__LINKEDIT'' 192 32),
      mk_lc LC_SYMTAB (base + 140) (symtab_body 192 12),
      mk_lc LC_CODE_SIGNATURE (base + 164) (codesig_body 208 16)]"

definition signed_thin :: MachO where
  "signed_thin = thin_of (mk_arch 0 224 12 (signed_cmds 0))"

text \<open>
  A signed slice of 192 bytes whose \<^verbatim>\<open>__LINKEDIT\<close> segment, over \<open>[160, 176)\<close>, is
  not its last segment: a segment \<^verbatim>\<open>__DATA\<close> over \<open>[176, 192)\<close> follows it, and the
  signature is at \<open>[176, 192)\<close>.
\<close>

definition linkedit_first_cmds :: "LoadCommand list" where
  "linkedit_first_cmds =
     [mk_lc LC_SEGMENT 28 (segment_body ''__LINKEDIT'' 160 16),
      mk_lc LC_SEGMENT 84 (segment_body ''__DATA'' 176 16),
      mk_lc LC_CODE_SIGNATURE 140 (codesig_body 176 16)]"

definition linkedit_first_thin :: MachO where
  "linkedit_first_thin = thin_of (mk_arch 0 192 12 linkedit_first_cmds)"

text \<open>
  A slice of 160 bytes at \<open>base\<close> with no \<^verbatim>\<open>__LINKEDIT\<close> segment: one segment
  \<^verbatim>\<open>__TEXT\<close> over the whole slice, the string table at \<open>[128, 140)\<close> and the signature
  at \<open>[144, 160)\<close>.
\<close>

definition text_only_cmds :: "nat \<Rightarrow> LoadCommand list" where
  "text_only_cmds base =
     [mk_lc LC_SEGMENT (base + 28) (segment_body ''__TEXT'' 0 160),
      mk_lc LC_SYMTAB (base + 84) (symtab_body 128 12),
      mk_lc LC_CODE_SIGNATURE (base + 108) (codesig_body 144 16)]"

definition text_only_thin :: MachO where
  "text_only_thin = thin_of (mk_arch 0 160 12 (text_only_cmds 0))"

text \<open>
  A signed slice of 128 bytes at \<open>base\<close> without a symbol table: \<^verbatim>\<open>__TEXT\<close> over the
  whole slice and the signature at \<open>[112, 128)\<close>; and a fat file of two such slices.
\<close>

definition sig_only_cmds :: "nat \<Rightarrow> LoadCommand list" where
  "sig_only_cmds base =
     [mk_lc LC_SEGMENT (base + 28) (segment_body ''__TEXT'' 0 128),
      mk_lc LC_CODE_SIGNATURE (base + 84) (codesig_body 112 16)]"

definition two_slices_fat :: MachO where
  "two_slices_fat =
     fat_of [mk_arch 64 128 5 (sig_only_cmds 64), mk_arch 192 128 5 (sig_only_cmds 192)]"



text \<open>A slice of 96 bytes with three load commands of 16 bytes, told apart by their bodies.\<close>

definition three_cmds :: "LoadCommand list" where
  "three_cmds =
     [mk_lc 0x24 28 (replicate 8 0xA1), mk_lc 0x25 44 (replicate 8 0xB2),
      mk_lc 0x26 60 (replicate 8 0xC3)]"

definition three_cmds_thin :: MachO where
  "three_cmds_thin = thin_of (mk_arch 0 96 12 three_cmds)"

text \<open>A slice of 40 bytes without load commands.\<close>

definition no_cmds_thin :: MachO where
  "no_cmds_thin = thin_of (mk_arch 0 40 12 [])"

text \<open>A thin file of 40 bytes, the bytes 1 to 40, whose slice is aligned to 32.\<close>

definition plain_thin :: MachO where
  "plain_thin =
     \<lparr>file = map of_nat [1..<41], file_size = 40, is_fat = False, fat_magic = FAT_CIGAM,
      n_archs = 1, archs = [mk_arch 0 40 5 []]\<rparr>"

text \<open>
  Two fat files of one slice of 32 bytes each, at offset 64; the slices differ in the
  \<open>filetype\<close> of their headers.
\<close>

definition recipient_fat :: MachO where
  "recipient_fat = fat_of [mk_arch 64 32 6 []]"

definition donor_arch :: MachOArch where
  "donor_arch = (mk_arch 64 32 6 [])\<lparr>mach_header := (mk_header 32 [])\<lparr>filetype := 6\<rparr>\<rparr>"

definition donor_fat :: MachO where
  "donor_fat = fat_of [donor_arch]"

section \<open>Facts about the primitives\<close>

lemma ROUND_UP_least:
  assumes "0 < a"
  shows "a dvd ROUND_UP x a" and "x \<le> ROUND_UP x a"
    and "a dvd m \<Longrightarrow> x \<le> m \<Longrightarrow> ROUND_UP x a \<le> m"
proof -
  show "a dvd ROUND_UP x a" by (simp add: ROUND_UP_def)
  have "x + a - 1 < ((x + a - 1) div a) * a + a"
    using assms by (metis add.commute div_mult_mod_eq add_less_cancel_left mod_less_divisor mult.commute)
  then show "x \<le> ROUND_UP x a" using assms by (simp add: ROUND_UP_def)
  assume "a dvd m" "x \<le> m"
  then obtain k where k: "m = k * a" by (auto simp: dvd_def mult.commute)
  have "(x + a - 1) div a \<le> k"
  proof -
    have "x + a - 1 < (k + 1) * a" using \<open>x \<le> m\<close> k assms by simp
    then show ?thesis
      by (metis Suc_eq_plus1 less_Suc_eq_le less_mult_imp_div_less)
  qed
  then show "ROUND_UP x a \<le> m" by (simp add: ROUND_UP_def k)
qed

lemma length_ftruncate [simp]: "length (ftruncate f n) = n"
  by (simp add: ftruncate_def)


lemma write_at_Nil [simp]: "write_at f off [] = f"
  by (simp add: write_at_def)

lemma fzero_0 [simp]: "fzero f off 0 = f"
  by (simp add: fzero_def)




section \<open>Thin to fat and back\<close>



text \<open>
  C8.  \<open>make_fat\<close> on the thin file of the bytes 1 to 40, aligned to 32: the file grows by
  32 bytes and the original bytes follow the gap, but the gap \<open>[0, 32)\<close> still holds the
  first 32 bytes of the original; none of it is zeroed (\<^verbatim>\<open>fzero(file, offset, 0)\<close> zeroes
  no byte) and no header is written over it (\<open>is_fat\<close> is still false when
  \<open>write_fat_header\<close> and \<open>write_fat_archs\<close> run).
\<close>

theorem make_fat_leaves_gap:
  "map_option (\<lambda>st. (length (file st), take 32 (file st), drop 32 (file st))) (make_fat plain_thin)
     = Some (72, take 32 (file plain_thin), file plain_thin)
   \<and> take 4 (drop 28 (file plain_thin)) = [29, 30, 31, 32]"
  by code_simp

section \<open>Opening\<close>

text \<open>
  C9, as the claim states it, fails: a file of \<open>2^32\<close> zero bytes has first four bytes
  that are no magic, and the constructor throws for its size.
\<close>

theorem open_size_before_magic_counterexample:
  "PEEK (replicate (2 ^ 32) 0) = Some 0 \<and> \<not> IS_MAGIC 0
   \<and> MachO_open (replicate (2 ^ 32) 0) = Some (Inl FileTooLarge)"
proof -
  have a: "take 4 (replicate (2 ^ 32) (0::byte)) = replicate 4 0" by simp
  have b: "le_decode (replicate 4 (0::byte)) = (0::u32)" by code_simp
  have c: "\<not> IS_MAGIC 0" by code_simp
  show ?thesis
    using c by (simp add: PEEK_def MachO_open_def UINT32_MAX_def a b)
qed

text \<open>
  C9, amended.  The constructor checks the size before the magic: a file larger than
  \<open>2^32 - 1\<close> bytes is refused for its size whatever its first four bytes are, and the
  unknown magic is reported exactly for the files of at most \<open>2^32 - 1\<close> bytes whose
  first four bytes are no recognized magic.
\<close>

theorem open_checks_size_first:
  "(UINT32_MAX < length f \<longrightarrow> MachO_open f = Some (Inl FileTooLarge))
   \<and> (MachO_open f = Some (Inl (UnknownMagic m))
        \<longleftrightarrow> length f \<le> UINT32_MAX \<and> PEEK f = Some m \<and> \<not> IS_MAGIC m)"
  by (auto simp: MachO_open_def split: option.splits)

theorem open_checks_size_first_witness:
  "MachO_open (replicate (2 ^ 32) 0) = Some (Inl FileTooLarge)
   \<and> MachO_open [1, 2, 3, 4] = Some (Inl (UnknownMagic 0x04030201))"
proof -
  have big: "UINT32_MAX < length (replicate (2 ^ 32) (0::byte))"
    by (simp add: UINT32_MAX_def)
  have small: "length [1, 2, 3, 4 :: byte] \<le> UINT32_MAX" by (simp add: UINT32_MAX_def)
  have pk: "PEEK [1, 2, 3, 4] = Some 0x04030201" by code_simp
  have nm: "\<not> IS_MAGIC 0x04030201" by code_simp
  show ?thesis
    using open_checks_size_first [of "replicate (2 ^ 32) 0" 0] big
      open_checks_size_first [of "[1, 2, 3, 4]" "0x04030201"] small pk nm
    by blast
qed

section \<open>The operations on concrete files\<close>

lemma strncmp_zero_prefix:
  "strncmp s1 s2 n = 0 \<Longrightarrow> m \<le> n \<Longrightarrow> m \<le> length s2 \<Longrightarrow> 0 \<notin> set (take m s2) \<Longrightarrow>
     take m s1 = take m s2"
proof (induction n arbitrary: s1 s2 m)
  case 0
  then show ?case by simp
next
  case (Suc n)
  show ?case
  proof (cases m)
    case 0
    then show ?thesis by simp
  next
    case (Suc k)
    with Suc.prems(3) obtain c2 t2 where s2: "s2 = c2 # t2" by (cases s2) auto
    with Suc.prems(4) \<open>m = Suc k\<close> have c2: "c2 \<noteq> 0" and t2: "0 \<notin> set (take k t2)" by auto
    from Suc.prems(1) s2 c2 obtain t1 where s1: "s1 = c2 # t1"
      by (cases s1) (auto simp: Let_def split: if_splits)
    from Suc.prems(1) s1 s2 c2 have "strncmp t1 t2 n = 0" by (simp add: Let_def)
    from Suc.IH [OF this _ _ t2] Suc.prems(2,3) \<open>m = Suc k\<close> s2
    have "take k t1 = take k t2" by simp
    then show ?thesis by (simp add: s1 s2 \<open>m = Suc k\<close>)
  qed
qed

lemma strncmp_object_segname:
  "strncmp (object_segname lc) (cstring ''__LINKEDIT'') 16 \<noteq> 0"
proof
  assume z: "strncmp (object_segname lc) (cstring ''__LINKEDIT'') 16 = 0"
  have L: "cstring ''__LINKEDIT'' = [0x5f, 0x5f, 0x4c, 0x49, 0x4e, 0x4b, 0x45, 0x44, 0x49, 0x54]"
    by code_simp
  have nz: "0 \<notin> set (take 9 (cstring ''__LINKEDIT''))"
    unfolding L by simp
  have "take 9 (object_segname lc) = take 9 (cstring ''__LINKEDIT'')"
    by (rule strncmp_zero_prefix [OF z _ _ nz]) (simp_all add: L)
  then have "length (take 9 (object_segname lc)) = length (take 9 (cstring ''__LINKEDIT''))"
    by simp
  then show False
    by (simp add: L object_segname_def le64_def le_encode_def)
qed

lemma scan_cmds_last_segment:
  assumes "\<And>lc. strncmp (sn lc) (cstring ''__LINKEDIT'') 16 \<noteq> 0"
  shows "fst (snd (scan_cmds sn ls i (c, l, s)))
           = (case last_segment ls of Some k \<Rightarrow> Some (i + k) | None \<Rightarrow> l)"
  using assms
  by (induction ls arbitrary: i c l s)
     (auto split: option.splits simp: LC_SEGMENT_def LC_SEGMENT_64_def LC_CODE_SIGNATURE_def)

text \<open>
  On the signed slice \<open>signed_thin\<close>, whose last segment is \<^verbatim>\<open>__LINKEDIT\<close>, the scan
  takes that segment and the removal succeeds: the slice loses the 16 bytes of the
  signature and the 4 bytes after the string table.
\<close>

lemma signed_slice_is_stripped:
  "scan_cmds object_segname (signed_cmds 0) 0 (None, None, None) = (Some 3, Some 1, Some 2)
   \<and> map_option (\<lambda>r. (fst r, length (file (snd r))))
        (remove_codesignature object_segname signed_thin 0) = Some (True, 204)"
  by code_simp

text \<open>
  C1.  On the signed slice \<open>linkedit_first_thin\<close>, whose segments are \<^verbatim>\<open>__LINKEDIT\<close> and
  then \<^verbatim>\<open>__DATA\<close>, the scan takes command 1, the segment named \<^verbatim>\<open>__DATA\<close>, as the
  \<^verbatim>\<open>__LINKEDIT\<close> segment, and not command 0, whose name is \<^verbatim>\<open>__LINKEDIT\<close>.  The removal
  succeeds and updates the segment it took: the \<open>filesize\<close> of \<^verbatim>\<open>__DATA\<close> goes from 16
  to 0, and the segment named \<^verbatim>\<open>__LINKEDIT\<close> keeps its 16.
\<close>

theorem last_segment_taken_for_linkedit:
  "scan_cmds object_segname linkedit_first_cmds 0 (None, None, None) = (Some 2, Some 1, None)
   \<and> map segname_field (take 2 linkedit_first_cmds)
        = [segname16 ''__LINKEDIT'', segname16 ''__DATA'']
   \<and> map (filesize MH_MAGIC) (take 2 linkedit_first_cmds) = [16, 16]
   \<and> map_option (\<lambda>r. (fst r, map segname_field (load_commands (hd (archs (snd r)))),
                        map (filesize MH_MAGIC) (load_commands (hd (archs (snd r))))))
        (remove_codesignature object_segname linkedit_first_thin 0)
       = Some (True, [segname16 ''__LINKEDIT'', segname16 ''__DATA''], [16, 0])"
  by code_simp

lemma remove_codesignature_False_unchanged:
  "remove_codesignature sn st ai = Some (False, st') \<Longrightarrow> st' = st"
  by (auto simp: remove_codesignature_def Let_def split: option.splits if_splits prod.splits)

text \<open>
  C3.  The slice \<open>text_only_thin\<close> has no segment named \<^verbatim>\<open>__LINKEDIT\<close>, yet the removal
  returns true and changes the file, which is 20 bytes shorter afterwards.
\<close>

theorem no_linkedit_still_removed:
  "filter (\<lambda>lc. segname_field lc = segname16 ''__LINKEDIT'') (text_only_cmds 0) = []
   \<and> map_option (\<lambda>r. (fst r, file (snd r) = file text_only_thin, length (file (snd r))))
        (remove_codesignature object_segname text_only_thin 0) = Some (True, False, 140)"
  by code_simp

text \<open>
  C2.  The slice \<open>three_cmds_thin\<close> satisfies the invariant.  After
  \<open>move_load_command\<close> from index 0 to index 1 the records are in the order 1, 2, 0 with
  the offsets 28, 60, 44, while the file holds the commands in the order 1, 0, 2: the
  third record does not lie after the first two, and the list does not describe the file.
\<close>

theorem move_breaks_invariant:
  "lc_invariant (file three_cmds_thin) (hd (archs three_cmds_thin))
   \<and> map_option (\<lambda>st. (map file_offset (load_commands (hd (archs st))),
                        map cmd (load_commands (hd (archs st))),
                        read_at (file st) 28 48 = concat (map raw_lc (load_commands (hd (archs st)))),
                        lc_invariant (file st) (hd (archs st))))
        (move_load_command three_cmds_thin 0 0 1) = Some ([28, 60, 44], [0x25, 0x26, 0x24], False, False)"
  by code_simp

text \<open>
  The same invariant after \<open>insert_load_command\<close> into a slice without load commands:
  the command is placed at the end of the slice, \<open>offset + size = 40\<close>, not after the
  mach header at 28.
\<close>

lemma insert_into_empty_list_breaks_invariant:
  "lc_invariant (file no_cmds_thin) (hd (archs no_cmds_thin))
   \<and> map_option (\<lambda>st. (length (file st), map file_offset (load_commands (hd (archs st))),
                        lc_invariant (file st) (hd (archs st))))
        (insert_load_command no_cmds_thin 0 (raw_lc (mk_lc 0x24 0 (replicate 8 0xA1))))
       = Some (56, [40], False)"
  by code_simp

text \<open>
  C7.  Inserting the slice of \<open>donor_fat\<close>, which lies at offset 64 of the donor's file,
  into \<open>recipient_fat\<close>: the destination is \<open>128 = round_up 96 64\<close> and the file ends up
  \<open>128 + 32\<close> bytes long, but the range \<open>[128, 160)\<close> holds the first 32 bytes of the
  donor's file, its fat header, and not the slice.
\<close>

theorem insert_arch_copies_from_start:
  "map_option (\<lambda>st. (length (file st), read_at (file st) 128 32))
      (insert_arch_from_macho recipient_fat donor_fat 0)
     = Some (160, read_at (file donor_fat) 0 32)
   \<and> read_at (file donor_fat) 64 32 = slice_bytes donor_arch
   \<and> read_at (file donor_fat) 0 32 \<noteq> slice_bytes donor_arch"
  by code_simp

section \<open>Load-command tables\<close>


lemma total_cmdsize_simps [simp]:
  "total_cmdsize [] = 0"
  "total_cmdsize (lc # ls) = unat (cmdsize lc) + total_cmdsize ls"
  "total_cmdsize (xs @ ys) = total_cmdsize xs + total_cmdsize ys"
  by (simp_all add: total_cmdsize_def)



lemma contiguous_append:
  "contiguous pos (xs @ ys) \<longleftrightarrow> contiguous pos xs \<and> contiguous (pos + total_cmdsize xs) ys"
  by (induction xs arbitrary: pos) (auto simp: add.assoc)

lemma on_disk_append: "on_disk f (xs @ ys) \<longleftrightarrow> on_disk f xs \<and> on_disk f ys"
  by (induction xs) auto


lemma read_at_decomp:
  assumes "read_at f q (length u) = u" "u \<noteq> []"
  shows "\<exists>A B. f = A @ u @ B \<and> length A = q"
proof -
  from assms have ne: "drop q f \<noteq> []" by (auto simp: read_at_def)
  then have q: "q < length f" by simp
  have "f = take q f @ take (length u) (drop q f) @ drop (length u) (drop q f)"
    by (metis append_take_drop_id)
  then have "f = take q f @ u @ drop (length u) (drop q f)"
    using assms(1) by (simp add: read_at_def)
  moreover have "length (take q f) = q" using q by simp
  ultimately show ?thesis by blast
qed

lemma write_at_same:
  "read_at f q (length u) = u \<Longrightarrow> write_at f q u = f"
proof (cases "u = []")
  case True
  then show ?thesis by simp
next
  case False
  assume "read_at f q (length u) = u"
  from read_at_decomp [OF this False] obtain A B where "f = A @ u @ B" "length A = q" by blast
  then show ?thesis using False by (simp add: write_at_def)
qed

lemma swap_back:
  assumes ru: "read_at f q (length u) = u" and rv: "read_at f (q + length u) (length v) = v"
  shows "write_at (write_at (write_at (write_at f q v) (q + length v) u) q u) (q + length u) v = f"
proof (cases "u = [] \<or> v = []")
  case True
  then show ?thesis
    using ru rv by (auto simp: write_at_same)
next
  case False
  then have u: "u \<noteq> []" and v: "v \<noteq> []" by simp_all
  from read_at_decomp [OF ru u] obtain A B where f: "f = A @ u @ B" and A: "length A = q" by blast
  from rv have "take (length v) B = v" by (simp add: f A [symmetric] read_at_def)
  then obtain C where B: "B = v @ C" by (metis append_take_drop_id)
  show ?thesis
    using u v by (simp add: f B A [symmetric] write_at_def)
qed

lemma last_two:
  assumes "p + 2 = length xs"
  shows "\<exists>pre x y. xs = pre @ [x, y] \<and> length pre = p"
proof -
  have "xs = take p xs @ drop p xs" by simp
  moreover have "length (drop p xs) = 2" using assms by simp
  then obtain x y where "drop p xs = [x, y]"
    by (metis (no_types, opaque_lifting) One_nat_def Suc_1 length_0_conv length_Suc_conv)
  moreover have "length (take p xs) = p" using assms by simp
  ultimately show ?thesis by metis
qed

lemma move_forward_last_two:
  assumes arch: "nth_opt (archs st) a = Some arch"
    and lcs: "load_commands arch = pre @ [x, y]"
  shows "move_forward st a (length pre) (Suc (length pre)) =
           Some (st\<lparr>file := write_at (write_at (file st) (file_offset x) (payload y))
                             (file_offset x + unat (cmdsize y)) (payload x),
                     archs := (archs st)[a := arch\<lparr>load_commands :=
                        pre @ [y\<lparr>file_offset := file_offset x\<rparr>,
                               x\<lparr>file_offset := file_offset x + unat (cmdsize y)\<rparr>]\<rparr>]\<rparr>)"
  using arch by (simp add: move_forward_def lcs Let_def nth_append payload_def)

text \<open>
  C6, as the claim states it, fails.  On the slice \<open>three_cmds_thin\<close>, whose commands
  0, 1, 2 lie in this order in the file, \<open>move_load_command\<close> from 0 to 2 and then from
  2 to 0 leaves the file with the commands in the order 2, 0, 1: the second call swaps
  its indices and slides the block to the left once more.
\<close>

theorem move_there_and_back_counterexample:
  "map_option (\<lambda>st. read_at (file st) 28 48)
     (Option.bind (move_load_command three_cmds_thin 0 0 2) (\<lambda>st. move_load_command st 0 2 0))
     = Some (concat (map raw_lc [three_cmds ! 2, three_cmds ! 0, three_cmds ! 1]))
   \<and> read_at (file three_cmds_thin) 28 48 = concat (map raw_lc three_cmds)
   \<and> concat (map raw_lc [three_cmds ! 2, three_cmds ! 0, three_cmds ! 1])
        \<noteq> concat (map raw_lc three_cmds)"
  by code_simp

text \<open>
  C6, amended.  When \<open>i = j\<close>, or when \<open>i\<close> and \<open>j\<close> are the last two indices of the
  load-command list (in either order), \<open>move_load_command\<close> from \<open>i\<close> to \<open>j\<close> followed by
  \<open>move_load_command\<close> from \<open>j\<close> to \<open>i\<close> succeeds and restores the file byte for byte,
  and the list of records with it; the records are taken to follow each other in the
  file and the file to hold their payloads.
\<close>

theorem move_load_command_there_and_back:
  assumes arch: "nth_opt (archs st) a = Some arch"
    and cont: "contiguous base (load_commands arch)"
    and disk: "on_disk (file st) (load_commands arch)"
    and ij: "i = j \<or> (min i j + 2 = length (load_commands arch)
                        \<and> max i j + 1 = length (load_commands arch))"
  shows "\<exists>st1 st2. move_load_command st a i j = Some st1 \<and> move_load_command st1 a j i = Some st2
           \<and> file st2 = file st \<and> load_commands (archs st2 ! a) = load_commands arch"
proof (cases "i = j")
  case True
  then show ?thesis using arch by (auto simp: move_load_command_def nth_opt_def split: if_splits)
next
  case False
  define p where "p = min i j"
  from ij False have n: "p + 2 = length (load_commands arch)" and mx: "max i j = Suc p"
    by (simp_all add: p_def)
  from last_two [OF n] obtain pre x y where
    lcs: "load_commands arch = pre @ [x, y]" and pre: "length pre = p" by blast
  have a_lt: "a < length (archs st)" and a_nth: "archs st ! a = arch"
    using arch by (auto simp: nth_opt_def split: if_splits)
  from cont have ox: "file_offset x = base + total_cmdsize pre"
    and sx: "length (raw_lc x) = unat (cmdsize x)"
    and oy: "file_offset y = file_offset x + unat (cmdsize x)"
    and sy: "length (raw_lc y) = unat (cmdsize y)"
    by (simp_all add: lcs contiguous_append)
  from disk have dx: "read_at (file st) (file_offset x) (unat (cmdsize x)) = raw_lc x"
    and dy: "read_at (file st) (file_offset y) (unat (cmdsize y)) = raw_lc y"
    by (simp_all add: lcs on_disk_append)
  have px: "payload x = raw_lc x" and py: "payload y = raw_lc y"
    by (simp_all add: payload_def sx sy)
  define y' where "y' = y\<lparr>file_offset := file_offset x\<rparr>"
  define x' where "x' = x\<lparr>file_offset := file_offset x + unat (cmdsize y)\<rparr>"
  define arch1 where "arch1 = arch\<lparr>load_commands := pre @ [y', x']\<rparr>"
  define st1 where "st1 = st\<lparr>file := write_at (write_at (file st) (file_offset x) (payload y))
      (file_offset x + unat (cmdsize y)) (payload x), archs := (archs st)[a := arch1]\<rparr>"
  have ij_cases: "(i = p \<and> j = Suc p) \<or> (j = p \<and> i = Suc p)"
    using mx False by (auto simp: p_def min_def max_def split: if_splits)
  have m1: "move_load_command st a i j = Some st1"
    using ij_cases move_forward_last_two [OF arch lcs]
    by (auto simp: move_load_command_def pre st1_def arch1_def y'_def x'_def)
  have arch1: "nth_opt (archs st1) a = Some arch1"
    using a_lt by (simp add: st1_def nth_opt_def)
  have lcs1: "load_commands arch1 = pre @ [y', x']" by (simp add: arch1_def)
  define st2 where "st2 = st1\<lparr>file := write_at (write_at (file st1) (file_offset y') (payload x'))
      (file_offset y' + unat (cmdsize x')) (payload y'),
      archs := (archs st1)[a := arch1\<lparr>load_commands :=
        pre @ [x'\<lparr>file_offset := file_offset y'\<rparr>,
               y'\<lparr>file_offset := file_offset y' + unat (cmdsize x')\<rparr>]\<rparr>]\<rparr>"
  have m2: "move_load_command st1 a j i = Some st2"
    using ij_cases move_forward_last_two [OF arch1 lcs1]
    by (auto simp: move_load_command_def pre st2_def)
  have restored: "file st2 = file st"
    using swap_back [of "file st" "file_offset x" "raw_lc x" "raw_lc y"] dx dy
    by (simp add: st2_def st1_def x'_def y'_def px py payload_def sx sy oy)
  have "load_commands (archs st2 ! a) = pre @ [x, y]"
    using a_lt by (simp add: st2_def st1_def x'_def y'_def arch1_def oy)
  then show ?thesis using m1 m2 restored lcs by simp
qed

theorem move_load_command_there_and_back_witness:
  "\<exists>st1 st2. move_load_command three_cmds_thin 0 1 2 = Some st1
     \<and> move_load_command st1 0 2 1 = Some st2
     \<and> file st2 = file three_cmds_thin
     \<and> load_commands (archs st2 ! 0) = load_commands (mk_arch 0 96 12 three_cmds)"
proof -
  have h1: "nth_opt (archs three_cmds_thin) 0 = Some (mk_arch 0 96 12 three_cmds)"
    by code_simp
  have h2: "contiguous 28 (load_commands (mk_arch 0 96 12 three_cmds))"
    by code_simp
  have h3: "on_disk (file three_cmds_thin) (load_commands (mk_arch 0 96 12 three_cmds))"
    by code_simp
  have h4: "(1::nat) = 2 \<or> (min 1 2 + 2 = length (load_commands (mk_arch 0 96 12 three_cmds))
      \<and> max 1 2 + 1 = length (load_commands (mk_arch 0 96 12 three_cmds)))"
    by code_simp
  show ?thesis
    using move_load_command_there_and_back [OF h1 h2 h3 h4] .
qed

section \<open>The scan and the removal\<close>





lemma length_le32 [simp]: "length (le32 w) = 4"
  by (simp add: le32_def le_encode_def)

lemma length_le64 [simp]: "length (le64 w) = 8"
  by (simp add: le64_def le_encode_def)

lemma length_fat_arch_bytes [simp]: "length (fat_arch_bytes fa) = 20"
  by (simp add: fat_arch_bytes_def)

lemma length_mach_header_bytes [simp]: "length (mach_header_bytes mh) = 28"
  by (simp add: mach_header_bytes_def)



























text \<open>
  On the last slice of the same file the removal shortens the file by the 16 bytes the
  slice loses.
\<close>

lemma last_slice_shortens_file:
  "trailing_slice two_slices_fat 1
   \<and> map_option (\<lambda>r. (fst r, length (file (snd r)), map (\<lambda>a. size_fa (fat_arch a)) (archs (snd r))))
        (remove_codesignature object_segname two_slices_fat 1) = Some (True, 304, [128, 112])"
  by code_simp



end
